theory Spec2Isabelle
  imports Complex_Main "HOL-Library.Dlist"
begin

section \<open>Python values shared by the services\<close>

text \<open>
  Python floats are idealised as exact rationals: every constant of the sources
  (weights, thresholds, penalties) is a short decimal, and the statements below are
  about clamping, thresholds and sums, not about binary rounding error.

  A Python \<open>str\<close> is a \<open>string\<close>; a character stands for a code point below 256.
\<close>

text \<open>\<open>round(x, n)\<close> of Python 3: to \<open>n\<close> decimals, a tie going to the even digit.\<close>

definition py_round :: "rat \<Rightarrow> nat \<Rightarrow> rat" where
  "py_round x n =
     (let s = x * 10 ^ n;
          f = floor s;
          d = s - of_int f;
          q = (if d < 1 / 2 then f else if 1 / 2 < d then f + 1
               else if even f then f else f + 1)
      in of_int q / 10 ^ n)"

text \<open>\<open>d.get(k, default)\<close> on a dictionary.\<close>

definition dict_get :: "('k \<rightharpoonup> 'v) \<Rightarrow> 'k \<Rightarrow> 'v \<Rightarrow> 'v" where
  "dict_get d k dflt = (case d k of None \<Rightarrow> dflt | Some v \<Rightarrow> v)"

text \<open>
  \<open>str.strip()\<close>: the characters \<open>str.isspace\<close> accepts below code point 256
  (tab, line feed, vertical tab, form feed, carriage return, the four separators
  0x1C..0x1F, space, 0x85 and 0xA0) are removed at both ends.
\<close>

definition is_py_space :: "char \<Rightarrow> bool" where
  "is_py_space c =
     (let n = (of_char c :: nat)
      in (9 \<le> n \<and> n \<le> 13) \<or> (28 \<le> n \<and> n \<le> 32) \<or> n = 133 \<or> n = 160)"

definition strip :: "string \<Rightarrow> string" where
  "strip s = rev (dropWhile is_py_space (rev (dropWhile is_py_space s)))"

text \<open>\<open>pat in s\<close> on strings: \<open>pat\<close> occurs in \<open>s\<close> as a contiguous substring.\<close>

fun str_contains :: "string \<Rightarrow> string \<Rightarrow> bool" where
  "str_contains pat [] = (pat = [])"
| "str_contains pat (c # cs) = (take (length pat) (c # cs) = pat \<or> str_contains pat cs)"


section \<open>services/trust\_score.py\<close>




text \<open>\<open>get_violation_penalty\<close>: the flat penalty of an event type, 2 when unknown.\<close>

definition violation_penalties :: "string \<rightharpoonup> rat" where
  "violation_penalties =
     [''tab_switch'' \<mapsto> 5, ''window_blur'' \<mapsto> 3, ''devtools_open'' \<mapsto> 15,
      ''devtools_attempt'' \<mapsto> 10, ''copy_paste'' \<mapsto> 8, ''clipboard_attempt'' \<mapsto> 5,
      ''paste_detected'' \<mapsto> 10, ''fullscreen_exit'' \<mapsto> 10, ''gaze_deviation'' \<mapsto> 3,
      ''face_missing'' \<mapsto> 10, ''camera_face_missing'' \<mapsto> 10, ''multi_face'' \<mapsto> 15,
      ''camera_multi_face'' \<mapsto> 15, ''voice_mismatch'' \<mapsto> 10,
      ''audio_multiple_voices'' \<mapsto> 12, ''typing_anomaly'' \<mapsto> 8, ''burst_typing'' \<mapsto> 5,
      ''high_wpm'' \<mapsto> 7, ''code_entropy_anomaly'' \<mapsto> 10, ''large_paste'' \<mapsto> 12,
      ''idle_timeout'' \<mapsto> 3]"

definition get_violation_penalty :: "string \<Rightarrow> rat" where
  "get_violation_penalty event_type = dict_get violation_penalties event_type 2"


section \<open>services/sandbox.py\<close>

record SandboxResult =
  stdout :: string
  stderr :: string
  exit_code :: int
  timed_out :: bool
  execution_time :: rat

text \<open>The sandbox fields of \<open>config.settings\<close>; \<open>SANDBOX_CPU_LIMIT\<close> is kept as
  the text \<open>str()\<close> renders, the only way the sandbox uses it.\<close>

record Settings =
  SANDBOX_IMAGE :: string
  SANDBOX_TIMEOUT :: int
  SANDBOX_MEMORY_LIMIT :: string
  SANDBOX_CPU_LIMIT :: string


text \<open>
  What \<open>create_subprocess_exec\<close> followed by \<open>wait_for(proc.communicate(...), timeout)\<close>
  can do: the process ends within the timeout (decoded stdout and stderr, the return
  code, the seconds elapsed), \<open>asyncio.TimeoutError\<close> is raised, or any other
  exception is raised (its text, the seconds elapsed).
\<close>

datatype proc_outcome =
    Exited string string "int option" rat
  | TimeoutError
  | OtherException string rat

text \<open>
  The operating system as one call of \<open>execute_code\<close> meets it: whether
  \<open>docker info\<close> succeeds, the container name drawn from \<open>uuid4\<close>,
  \<open>sys.executable\<close>, and the behaviour of a spawned command given its argument
  vector, the text piped to its stdin (\<open>None\<close> when no pipe is opened) and the
  timeout in seconds. Killing the container or the process in the timeout handler is
  taken to succeed: it acts on the operating system and adds nothing to the value
  returned.
\<close>

record os_env =
  docker_available :: bool
  container_name :: string
  sys_executable :: string
  spawn :: "string list \<Rightarrow> string option \<Rightarrow> int \<Rightarrow> proc_outcome"

text \<open>\<open>timeout or settings.SANDBOX_TIMEOUT\<close>: \<open>None\<close> and \<open>0\<close> are falsy.\<close>

definition effective_timeout :: "Settings \<Rightarrow> int option \<Rightarrow> int" where
  "effective_timeout s timeout =
     (case timeout of None \<Rightarrow> SANDBOX_TIMEOUT s
      | Some t \<Rightarrow> if t = 0 then SANDBOX_TIMEOUT s else t)"

text \<open>\<open>stdin=PIPE if stdin_data else None\<close>, with \<open>input=stdin_data.encode()\<close>.\<close>

definition stdin_pipe :: "string \<Rightarrow> string option" where
  "stdin_pipe stdin_data = (if stdin_data = [] then None else Some stdin_data)"

text \<open>The three exits of the \<open>try\<close> block that both strategies share.\<close>

definition result_of_outcome :: "int \<Rightarrow> proc_outcome \<Rightarrow> SandboxResult" where
  "result_of_outcome timeout oc =
     (case oc of
        Exited out err returncode elapsed \<Rightarrow>
          \<lparr> stdout = out, stderr = err,
            exit_code = (case returncode of None \<Rightarrow> 0 | Some c \<Rightarrow> c),
            timed_out = False, execution_time = elapsed \<rparr>
      | TimeoutError \<Rightarrow>
          \<lparr> stdout = [], stderr = ''Execution timed out'', exit_code = 124,
            timed_out = True, execution_time = of_int timeout \<rparr>
      | OtherException msg elapsed \<Rightarrow>
          \<lparr> stdout = [], stderr = msg, exit_code = 1,
            timed_out = False, execution_time = elapsed \<rparr>)"

text \<open>\<open>lang_config\<close> of \<open>execute_code_docker\<close>: image and command per language.\<close>

definition lang_config :: "Settings \<Rightarrow> string \<Rightarrow> (string \<rightharpoonup> string \<times> string list)" where
  "lang_config s code =
     [''python'' \<mapsto> (SANDBOX_IMAGE s, [''python3'', ''-c'', code]),
      ''javascript'' \<mapsto> (''node:20-slim'', [''node'', ''-e'', code])]"

definition docker_cmd :: "Settings \<Rightarrow> string \<Rightarrow> string \<Rightarrow> string \<Rightarrow> string list" where
  "docker_cmd s name code language =
     (let config = dict_get (lang_config s code) language
                     (SANDBOX_IMAGE s, [''python3'', ''-c'', code])
      in [''docker'', ''run'', ''--rm'',
          ''--name'', name,
          ''--network'', ''none'',
          ''--memory'', SANDBOX_MEMORY_LIMIT s,
          ''--cpus'', SANDBOX_CPU_LIMIT s,
          ''--pids-limit'', ''50'',
          ''--read-only'',
          ''--tmpfs'', ''/tmp:size=10m'',
          ''--security-opt'', ''no-new-privileges'',
          fst config] @ snd config)"

definition execute_code_docker ::
  "Settings \<Rightarrow> os_env \<Rightarrow> string \<Rightarrow> string \<Rightarrow> string \<Rightarrow> int option \<Rightarrow> SandboxResult" where
  "execute_code_docker s env code language stdin_data timeout =
     (let t = effective_timeout s timeout
      in result_of_outcome t
           (spawn env (docker_cmd s (container_name env) code language)
              (stdin_pipe stdin_data) t))"

definition dangerous_patterns :: "string list" where
  "dangerous_patterns =
     [''import os'', ''import subprocess'', ''import sys'', ''import shutil'',
      ''__import__'', ''eval('', ''exec('', ''open('', ''import socket'',
      ''import http'', ''import urllib'', ''import requests'']"

text \<open>\<open>lang_cmd\<close> of \<open>execute_code_subprocess\<close>.\<close>

definition lang_cmd :: "string \<Rightarrow> string \<Rightarrow> (string \<rightharpoonup> string list)" where
  "lang_cmd exe code =
     [''python'' \<mapsto> [exe, ''-c'', code],
      ''javascript'' \<mapsto> [''node'', ''-e'', code]]"

definition subprocess_cmd :: "string \<Rightarrow> string \<Rightarrow> string \<Rightarrow> string list" where
  "subprocess_cmd exe code language =
     dict_get (lang_cmd exe code) language [exe, ''-c'', code]"

definition execute_code_subprocess ::
  "Settings \<Rightarrow> os_env \<Rightarrow> string \<Rightarrow> string \<Rightarrow> string \<Rightarrow> int option \<Rightarrow> SandboxResult" where
  "execute_code_subprocess s env code language stdin_data timeout =
     (let t = effective_timeout s timeout
      in case find (\<lambda>pattern. str_contains pattern code) dangerous_patterns of
           Some pattern \<Rightarrow>
             \<lparr> stdout = [],
               stderr = ''Blocked: '' @ [CHR 0x27] @ pattern @ [CHR 0x27]
                          @ '' is not allowed in sandbox mode'',
               exit_code = 1, timed_out = False, execution_time = 0 \<rparr>
         | None \<Rightarrow>
             result_of_outcome t
               (spawn env (subprocess_cmd (sys_executable env) code language)
                  (stdin_pipe stdin_data) t))"

definition execute_code ::
  "Settings \<Rightarrow> os_env \<Rightarrow> string \<Rightarrow> string \<Rightarrow> string \<Rightarrow> int option \<Rightarrow> SandboxResult" where
  "execute_code s env code language stdin_data timeout =
     (if docker_available env
      then execute_code_docker s env code language stdin_data timeout
      else execute_code_subprocess s env code language stdin_data timeout)"

text \<open>One entry of the \<open>results\<close> list of \<open>run_test_cases\<close>, and the report.\<close>

record case_result =
  test_case :: nat
  cr_passed :: bool
  cr_expected :: string
  cr_actual :: string
  cr_stderr :: "string option"
  cr_timed_out :: bool
  cr_execution_time :: rat


text \<open>
  The body of the loop of \<open>run_test_cases\<close> for the test case at index \<open>i\<close>, a
  dictionary read at the keys \<open>input\<close> and \<open>expected_output\<close>. Every pass of the
  loop calls \<open>execute_code\<close> anew, so it meets the operating system as it is then:
  \<open>world i\<close> for the pass at index \<open>i\<close>.
\<close>

definition run_one ::
  "Settings \<Rightarrow> os_env \<Rightarrow> string \<Rightarrow> string \<Rightarrow> nat \<Rightarrow> (string \<rightharpoonup> string) \<Rightarrow> case_result" where
  "run_one s env code language i tc =
     (let stdin_data = dict_get tc ''input'' [];
          expected = strip (dict_get tc ''expected_output'' []);
          result = execute_code s env code language stdin_data (Some 10);
          actual = strip (stdout result);
          test_passed = (actual = expected \<and> exit_code result = 0 \<and> \<not> timed_out result)
      in \<lparr> test_case = i + 1,
           cr_passed = test_passed,
           cr_expected = expected,
           cr_actual = actual,
           cr_stderr = (if stderr result = [] then None else Some (take 200 (stderr result))),
           cr_timed_out = timed_out result,
           cr_execution_time = execution_time result \<rparr>)"




text \<open>The passes of the loop from index \<open>i\<close> on, each one on its own.\<close>

definition indexed_runs ::
  "Settings \<Rightarrow> (nat \<Rightarrow> os_env) \<Rightarrow> string \<Rightarrow> string \<Rightarrow> nat \<Rightarrow> (string \<rightharpoonup> string) list
     \<Rightarrow> case_result list" where
  "indexed_runs s world code language i tcs =
     map (\<lambda>(k, tc). run_one s (world k) code language k tc) (zip [i..<i + length tcs] tcs)"





section \<open>routers/websocket.py\<close>

text \<open>
  A \<open>WebSocket\<close> object is known by its identity, a number. A Python \<open>set\<close> of
  them is a list without duplicates, in the order the \<open>for\<close> loop meets the
  elements; adding an element twice and discarding an absent one change nothing.
\<close>

type_synonym ws = nat

record user_info =
  ui_user_id :: "string option"
  ui_role :: "string option"
  ui_session_type :: string
  ui_session_id :: string

record ConnectionManager =
  channels :: "string \<rightharpoonup> ws dlist"
  user_map :: "ws \<rightharpoonup> user_info"

definition new_manager :: ConnectionManager where
  "new_manager = \<lparr> channels = Map.empty, user_map = Map.empty \<rparr>"

datatype ws_error = AcceptRaised

text \<open>
  \<open>connect\<close> awaits \<open>websocket.accept()\<close> first; \<open>accept_ok\<close> tells whether that
  call returns. When it raises, nothing of the manager has been touched yet.
\<close>

definition connect ::
  "bool \<Rightarrow> ws \<Rightarrow> string \<Rightarrow> user_info \<Rightarrow> ConnectionManager \<Rightarrow> ws_error + ConnectionManager" where
  "connect accept_ok websocket channel info m =
     (if \<not> accept_ok then Inl AcceptRaised
      else
        let members = (case channels m channel of None \<Rightarrow> Dlist.empty | Some ms \<Rightarrow> ms)
        in Inr (m \<lparr> channels := (channels m)(channel \<mapsto> Dlist.insert websocket members),
                    user_map := (user_map m)(websocket \<mapsto> info) \<rparr>))"

definition disconnect :: "ws \<Rightarrow> string \<Rightarrow> ConnectionManager \<Rightarrow> ConnectionManager" where
  "disconnect websocket channel m =
     (let chans =
            (case channels m channel of
               None \<Rightarrow> channels m
             | Some ms \<Rightarrow>
                 (let ms' = Dlist.remove websocket ms
                  in if Dlist.null ms' then (channels m)(channel := None)
                     else (channels m)(channel \<mapsto> ms')))
      in m \<lparr> channels := chans, user_map := (user_map m)(websocket := None) \<rparr>)"

text \<open>
  The first loop of \<open>send_to_channel\<close>: \<open>send_raises ws\<close> tells whether
  \<open>ws.send_json(message)\<close> raises; the messages delivered and the list \<open>dead\<close> are
  accumulated.
\<close>

fun send_loop ::
  "(ws \<Rightarrow> bool) \<Rightarrow> 'm \<Rightarrow> ws list \<Rightarrow> (ws \<times> 'm) list \<times> ws list \<Rightarrow> (ws \<times> 'm) list \<times> ws list" where
  "send_loop send_raises message [] acc = acc"
| "send_loop send_raises message (w # rest) (sent, dead) =
     (if send_raises w
      then send_loop send_raises message rest (sent, dead @ [w])
      else send_loop send_raises message rest (sent @ [(w, message)], dead))"

text \<open>\<open>send_to_channel\<close> returns the manager and the deliveries made, in order.\<close>

definition send_to_channel ::
  "(ws \<Rightarrow> bool) \<Rightarrow> string \<Rightarrow> 'm \<Rightarrow> ConnectionManager \<Rightarrow> ConnectionManager \<times> (ws \<times> 'm) list" where
  "send_to_channel send_raises channel message m =
     (case channels m channel of
        None \<Rightarrow> (m, [])
      | Some members \<Rightarrow>
          (let (sent, dead) = send_loop send_raises message (list_of_dlist members) ([], [])
           in (m \<lparr> channels := (channels m)(channel \<mapsto> fold Dlist.remove dead members) \<rparr>,
               sent)))"

text \<open>
  A teacher feed with two observers, and the manager after one student has joined an
  exam channel.
\<close>

definition two_observers :: ConnectionManager where
  "two_observers =
     \<lparr> channels = [''teacher_feed:e1'' \<mapsto> Dlist.insert 1 (Dlist.insert 2 Dlist.empty)],
       user_map = Map.empty \<rparr>"

definition student_info :: user_info where
  "student_info =
     \<lparr> ui_user_id = Some ''u1'', ui_role = Some ''student'',
       ui_session_type = ''exam'', ui_session_id = ''a1'' \<rparr>"

definition joined_once :: ConnectionManager where
  "joined_once =
     \<lparr> channels = [''exam:a1'' \<mapsto> Dlist.insert 7 Dlist.empty],
       user_map = [7 \<mapsto> student_info] \<rparr>"


section \<open>routers/monitoring.py\<close>

text \<open>
  A UUID is its canonical text, so \<open>str(data.attempt_id)\<close> is the identifier
  itself. A \<open>datetime\<close> is a count of microseconds, its resolution; the seconds of a
  \<open>timedelta\<close> are that count divided by \<open>10^6\<close>.
\<close>

type_synonym uuid = string

datatype py_error = TypeError | AttributeError

text \<open>The values the arguments of \<open>apply_violation_penalty\<close> take at run time.\<close>

datatype pyval = PyStr string | PyFloat rat | PyDict "string \<rightharpoonup> rat"

definition dimension_penalties :: "string \<rightharpoonup> string \<times> rat" where
  "dimension_penalties =
     [''tab_switch'' \<mapsto> (''behavior_stability'', 5),
      ''window_blur'' \<mapsto> (''behavior_stability'', 3),
      ''devtools_open'' \<mapsto> (''behavior_stability'', 15),
      ''copy_paste'' \<mapsto> (''behavior_stability'', 8),
      ''clipboard_attempt'' \<mapsto> (''behavior_stability'', 5),
      ''fullscreen_exit'' \<mapsto> (''environment_integrity'', 10),
      ''gaze_deviation'' \<mapsto> (''identity_stability'', 3),
      ''face_missing'' \<mapsto> (''identity_stability'', 10),
      ''multi_face'' \<mapsto> (''identity_stability'', 15),
      ''voice_mismatch'' \<mapsto> (''identity_stability'', 10),
      ''typing_anomaly'' \<mapsto> (''typing_consistency'', 8),
      ''paste_detected'' \<mapsto> (''typing_consistency'', 10),
      ''burst_typing'' \<mapsto> (''typing_consistency'', 5),
      ''high_wpm'' \<mapsto> (''typing_consistency'', 7),
      ''code_entropy_anomaly'' \<mapsto> (''coding_authenticity'', 10),
      ''large_paste'' \<mapsto> (''coding_authenticity'', 12),
      ''idle_timeout'' \<mapsto> (''behavior_stability'', 3)]"

text \<open>
  \<open>apply_violation_penalty(current_scores, event_type)\<close> of services/trust\_score.py,
  on whatever values it is called with. \<open>event_type in penalties\<close> hashes
  \<open>event_type\<close>: a dictionary is unhashable, a float is no key of the table. The
  update reads \<open>current_scores.get\<close>, which only a dictionary has. The value
  returned is \<open>current_scores\<close> itself.
\<close>

definition apply_violation_penalty :: "pyval \<Rightarrow> pyval \<Rightarrow> py_error + pyval" where
  "apply_violation_penalty current_scores event_type =
     (case event_type of
        PyDict _ \<Rightarrow> Inl TypeError
      | PyFloat _ \<Rightarrow> Inr current_scores
      | PyStr et \<Rightarrow>
          (case dimension_penalties et of
             None \<Rightarrow> Inr current_scores
           | Some (dimension, amount) \<Rightarrow>
               (case current_scores of
                  PyDict d \<Rightarrow>
                    Inr (PyDict (d(dimension \<mapsto> max 0 (dict_get d dimension 100 - amount))))
                | PyStr _ \<Rightarrow> Inl AttributeError
                | PyFloat _ \<Rightarrow> Inl AttributeError)))"

text \<open>\<open>x - v\<close> for a float \<open>x\<close>: defined when \<open>v\<close> is a number, a \<open>TypeError\<close>
  otherwise.\<close>

fun py_sub :: "rat \<Rightarrow> pyval \<Rightarrow> py_error + rat" where
  "py_sub x (PyFloat y) = Inr (x - y)"
| "py_sub x (PyStr _) = Inl TypeError"
| "py_sub x (PyDict _) = Inl TypeError"

record HeartbeatRequest =
  hb_attempt_id :: uuid
  hb_timestamp :: "rat option"
  tab_visible :: bool
  fullscreen :: bool
  battery_charging :: "bool option"
  battery_level :: "rat option"

text \<open>The columns of \<open>Attempt\<close> and \<open>Event\<close> the monitoring endpoints read or write;
  the free-form \<open>event_data\<close> and the signature stored with an event are left out.\<close>

record Attempt =
  attempt_id :: uuid
  user_id :: uuid
  trust_score :: rat
  risk_level :: string
  status :: string

record Event =
  ev_attempt_id :: uuid
  ev_event_type :: string
  confidence_score :: rat

record session_state =
  paused :: bool
  violations :: nat

text \<open>
  The module's dictionaries \<open>_heartbeats\<close> and \<open>_session_states\<close>, and the database
  session: the attempts by primary key and the events added.
\<close>

record mon_state =
  heartbeats :: "string \<rightharpoonup> int"
  session_states :: "string \<rightharpoonup> session_state"
  attempts :: "uuid \<rightharpoonup> Attempt"
  events :: "Event list"

definition HEARTBEAT_TOLERANCE :: rat where
  "HEARTBEAT_TOLERANCE = 10"

text \<open>An entry of the list \<open>violations\<close>: its \<open>type\<close> and the number it carries
  (the rounded gap, the battery level); the \<open>message\<close> text is left out.\<close>

datatype violation = HeartbeatGap rat | TabHidden | FullscreenExit | LowBattery rat

fun violation_type :: "violation \<Rightarrow> string" where
  "violation_type (HeartbeatGap _) = ''heartbeat_gap''"
| "violation_type TabHidden = ''tab_hidden''"
| "violation_type FullscreenExit = ''fullscreen_exit''"
| "violation_type (LowBattery _) = ''low_battery''"

record hb_response =
  hb_status :: string
  server_time :: int
  gap_seconds :: rat
  resp_violations :: "violation list"
  resp_paused :: bool

text \<open>
  The loop \<open>for v in violations\<close> of \<open>receive_heartbeat\<close>, on the attempt's trust
  score: \<open>penalty = apply_violation_penalty(v["type"], attempt.trust_score)\<close>, then
  \<open>attempt.trust_score = max(0, attempt.trust_score - penalty)\<close>.
\<close>

fun penalty_loop :: "violation list \<Rightarrow> rat \<Rightarrow> py_error + rat" where
  "penalty_loop [] ts = Inr ts"
| "penalty_loop (v # vs) ts =
     (case apply_violation_penalty (PyStr (violation_type v)) (PyFloat ts) of
        Inl e \<Rightarrow> Inl e
      | Inr penalty \<Rightarrow>
          (case py_sub ts penalty of
             Inl e \<Rightarrow> Inl e
           | Inr d \<Rightarrow> penalty_loop vs (max 0 d)))"

text \<open>
  \<open>receive_heartbeat\<close> at the time \<open>now\<close> for the authenticated user
  \<open>current_user\<close>. It returns the response or the exception raised, and the state
  left behind: the module's dictionaries keep what was written before an exception,
  the database session is rolled back by \<open>get_db\<close>.
\<close>

definition receive_heartbeat ::
  "int \<Rightarrow> uuid \<Rightarrow> HeartbeatRequest \<Rightarrow> mon_state \<Rightarrow> (py_error + hb_response) \<times> mon_state" where
  "receive_heartbeat now current_user data st =
     (let attempt_key = hb_attempt_id data;
          last_beat = heartbeats st attempt_key;
          gap = (case last_beat of None \<Rightarrow> 0 | Some lb \<Rightarrow> of_int (now - lb) / 1000000);
          sess = (case session_states st attempt_key of
                    None \<Rightarrow> (session_states st)(attempt_key \<mapsto> \<lparr> paused = False, violations = 0 \<rparr>)
                  | Some _ \<Rightarrow> session_states st);
          st1 = st \<lparr> heartbeats := (heartbeats st)(attempt_key \<mapsto> now), session_states := sess \<rparr>;
          gap_found = (last_beat \<noteq> None \<and> HEARTBEAT_TOLERANCE < gap);
          vs = (if gap_found then [HeartbeatGap (py_round gap 1)] else [])
             @ (if \<not> tab_visible data then [TabHidden] else [])
             @ (if \<not> fullscreen data then [FullscreenExit] else [])
             @ (case battery_level data of
                  None \<Rightarrow> []
                | Some level \<Rightarrow>
                    if level < 15 / 100 \<and> battery_charging data \<noteq> Some True
                    then [LowBattery level] else []);
          evs = (if gap_found
                 then events st @ [\<lparr> ev_attempt_id = hb_attempt_id data,
                                      ev_event_type = ''heartbeat_gap'', confidence_score = 1 \<rparr>]
                 else events st);
          response = (\<lambda>ss. \<lparr> hb_status = ''ok'', server_time = now,
                        gap_seconds = (if last_beat \<noteq> None then py_round gap 1 else 0),
                        resp_violations = vs,
                        resp_paused = (case ss attempt_key of None \<Rightarrow> False | Some x \<Rightarrow> paused x) \<rparr>)
      in if vs = [] then (Inr (response sess), st1 \<lparr> events := evs \<rparr>)
         else
           (case attempts st (hb_attempt_id data) of
              None \<Rightarrow> (Inr (response sess), st1 \<lparr> events := evs \<rparr>)
            | Some attempt \<Rightarrow>
                if user_id attempt \<noteq> current_user
                then (Inr (response sess), st1 \<lparr> events := evs \<rparr>)
                else
                  (case penalty_loop vs (trust_score attempt) of
                     Inl e \<Rightarrow> (Inl e, st1)
                   | Inr ts \<Rightarrow>
                       (let sess' = (case sess attempt_key of
                                       None \<Rightarrow> sess
                                     | Some x \<Rightarrow>
                                         sess(attempt_key \<mapsto> x \<lparr> violations := violations x + length vs \<rparr>))
                        in (Inr (response sess'),
                            st1 \<lparr> session_states := sess',
                                  attempts := (attempts st)(hb_attempt_id data \<mapsto>
                                                attempt \<lparr> trust_score := ts \<rparr>),
                                  events := evs \<rparr>)))))"


text \<open>
  The fields the camera, audio and behaviour requests share and the endpoints
  compute with; the other fields of a request only go into the stored payload.
\<close>

record SignalRequest =
  sig_attempt_id :: uuid
  sig_event_type :: string
  sig_confidence :: rat

text \<open>The response of a signal endpoint; \<open>new_trust_score\<close> is \<open>None\<close> where the
  endpoint does not send the key or sends \<open>None\<close>.\<close>

record signal_response =
  processed :: bool
  sr_risk_level :: string
  trust_adjustment :: rat
  new_trust_score :: "rat option"

definition camera_risk_map :: "string \<rightharpoonup> rat \<times> string" where
  "camera_risk_map =
     [''face_missing'' \<mapsto> (8, ''high''),
      ''multi_face'' \<mapsto> (12, ''critical''),
      ''gaze_deviation'' \<mapsto> (3, ''medium''),
      ''head_pose'' \<mapsto> (2, ''low''),
      ''face_detected'' \<mapsto> (0, ''none'')]"

definition audio_risk_map :: "string \<rightharpoonup> rat \<times> string" where
  "audio_risk_map =
     [''multiple_voices'' \<mapsto> (10, ''critical''),
      ''voice_detected'' \<mapsto> (0, ''none''),
      ''background_noise'' \<mapsto> (1, ''low''),
      ''silence'' \<mapsto> (0, ''none'')]"

definition behavior_risk_map :: "string \<rightharpoonup> rat \<times> string" where
  "behavior_risk_map =
     [''mouse_idle'' \<mapsto> (1, ''low''),
      ''rapid_scroll'' \<mapsto> (2, ''low''),
      ''suspicious_resize'' \<mapsto> (5, ''medium''),
      ''extension_detected'' \<mapsto> (15, ''critical''),
      ''devtools_open'' \<mapsto> (20, ''critical''),
      ''clipboard_paste'' \<mapsto> (4, ''medium''),
      ''tab_switch'' \<mapsto> (6, ''high''),
      ''window_blur'' \<mapsto> (5, ''high'')]"

definition log_event :: "string \<Rightarrow> SignalRequest \<Rightarrow> mon_state \<Rightarrow> mon_state" where
  "log_event prefix data st =
     st \<lparr> events := events st @
            [\<lparr> ev_attempt_id = sig_attempt_id data,
               ev_event_type = prefix @ sig_event_type data,
               confidence_score = sig_confidence data \<rparr>] \<rparr>"

text \<open>\<open>receive_camera_event\<close>; the background analysis it may schedule writes
  nothing back.\<close>

definition receive_camera_event ::
  "uuid \<Rightarrow> SignalRequest \<Rightarrow> mon_state \<Rightarrow> signal_response \<times> mon_state" where
  "receive_camera_event current_user data st =
     (let risk_info = dict_get camera_risk_map (sig_event_type data) (1, ''low'');
          st1 = log_event ''camera_'' data st;
          unchanged = (\<lparr> processed = True, sr_risk_level = snd risk_info,
                          trust_adjustment = py_round 0 2, new_trust_score = None \<rparr>, st1)
      in if 0 < fst risk_info
         then (case attempts st (sig_attempt_id data) of
                 None \<Rightarrow> unchanged
               | Some attempt \<Rightarrow>
                   if user_id attempt \<noteq> current_user then unchanged
                   else
                     (let penalty = fst risk_info * (1 - sig_confidence data * (3 / 10))
                      in (\<lparr> processed = True, sr_risk_level = snd risk_info,
                            trust_adjustment = py_round (- penalty) 2,
                            new_trust_score = None \<rparr>,
                          st1 \<lparr> attempts := (attempts st)(sig_attempt_id data \<mapsto>
                                  attempt \<lparr> trust_score := max 0 (trust_score attempt - penalty) \<rparr>) \<rparr>)))
         else unchanged)"

definition receive_audio_event ::
  "uuid \<Rightarrow> SignalRequest \<Rightarrow> mon_state \<Rightarrow> signal_response \<times> mon_state" where
  "receive_audio_event current_user data st =
     (let risk_info = dict_get audio_risk_map (sig_event_type data) (0, ''low'');
          st1 = log_event ''audio_'' data st;
          unchanged = (\<lparr> processed = True, sr_risk_level = snd risk_info,
                          trust_adjustment = py_round 0 2, new_trust_score = None \<rparr>, st1)
      in if 0 < fst risk_info
         then (case attempts st (sig_attempt_id data) of
                 None \<Rightarrow> unchanged
               | Some attempt \<Rightarrow>
                   if user_id attempt \<noteq> current_user then unchanged
                   else
                     (let penalty = fst risk_info
                      in (\<lparr> processed = True, sr_risk_level = snd risk_info,
                            trust_adjustment = py_round (- penalty) 2,
                            new_trust_score = None \<rparr>,
                          st1 \<lparr> attempts := (attempts st)(sig_attempt_id data \<mapsto>
                                  attempt \<lparr> trust_score := max 0 (trust_score attempt - penalty) \<rparr>) \<rparr>)))
         else unchanged)"

definition risk_of_score :: "rat \<Rightarrow> string" where
  "risk_of_score ts =
     (if ts < 40 then ''critical'' else if ts < 60 then ''high''
      else if ts < 80 then ''medium'' else ''low'')"

definition receive_behavior_event ::
  "uuid \<Rightarrow> SignalRequest \<Rightarrow> mon_state \<Rightarrow> signal_response \<times> mon_state" where
  "receive_behavior_event current_user data st =
     (let risk_info = dict_get behavior_risk_map (sig_event_type data) (1, ''low'');
          st1 = log_event ''behavior_'' data st
      in case attempts st (sig_attempt_id data) of
           None \<Rightarrow>
             (\<lparr> processed = True, sr_risk_level = snd risk_info,
                trust_adjustment = py_round 0 2, new_trust_score = None \<rparr>, st1)
         | Some attempt \<Rightarrow>
             if user_id attempt = current_user \<and> 0 < fst risk_info
             then
               (let ts = max 0 (trust_score attempt - fst risk_info)
                in (\<lparr> processed = True, sr_risk_level = snd risk_info,
                      trust_adjustment = py_round (- fst risk_info) 2,
                      new_trust_score = Some ts \<rparr>,
                    st1 \<lparr> attempts := (attempts st)(sig_attempt_id data \<mapsto>
                            attempt \<lparr> trust_score := ts, risk_level := risk_of_score ts \<rparr>) \<rparr>))
             else
               (\<lparr> processed = True, sr_risk_level = snd risk_info,
                  trust_adjustment = py_round 0 2,
                  new_trust_score = Some (trust_score attempt) \<rparr>, st1))"

text \<open>
  A state with one active attempt \<open>a1\<close> of the user \<open>u1\<close> at trust score 100, no
  heartbeat seen yet; and the requests used below.
\<close>

definition exam_state :: mon_state where
  "exam_state =
     \<lparr> heartbeats = Map.empty, session_states = Map.empty,
       attempts = [''a1'' \<mapsto> \<lparr> attempt_id = ''a1'', user_id = ''u1'', trust_score = 100,
                                 risk_level = ''low'', status = ''active'' \<rparr>],
       events = [] \<rparr>"

definition quiet_beat :: HeartbeatRequest where
  "quiet_beat =
     \<lparr> hb_attempt_id = ''a1'', hb_timestamp = None, tab_visible = True, fullscreen = True,
       battery_charging = None, battery_level = None \<rparr>"

definition troubled_beat :: HeartbeatRequest where
  "troubled_beat =
     \<lparr> hb_attempt_id = ''a1'', hb_timestamp = None, tab_visible = False, fullscreen = False,
       battery_charging = Some False, battery_level = Some (1 / 10) \<rparr>"

definition unknown_signal :: SignalRequest where
  "unknown_signal =
     \<lparr> sig_attempt_id = ''a1'', sig_event_type = ''cough'', sig_confidence = 1 \<rparr>"


section \<open>utils/hmac.py\<close>

text \<open>
  \<open>sign_event\<close> and \<open>verify_event\<close> over the two library functions they call:
  \<open>digest key text\<close> for the hexadecimal HMAC-SHA256 of \<open>text\<close> under \<open>key\<close>, and
  \<open>dumps\<close> for \<open>json.dumps(_, sort_keys=True, default=str)\<close>.
  \<open>hmac.compare_digest\<close> decides equality of two ASCII strings.
\<close>

definition sign_event :: "(string \<Rightarrow> string \<Rightarrow> string) \<Rightarrow> ('p \<Rightarrow> string) \<Rightarrow> string \<Rightarrow> 'p \<Rightarrow> string" where
  "sign_event digest dumps key event_data = digest key (dumps event_data)"

definition verify_event ::
  "(string \<Rightarrow> string \<Rightarrow> string) \<Rightarrow> ('p \<Rightarrow> string) \<Rightarrow> string \<Rightarrow> 'p \<Rightarrow> string \<Rightarrow> bool" where
  "verify_event digest dumps key event_data signature =
     (sign_event digest dumps key event_data = signature)"


section \<open>Trust score: results\<close>





section \<open>Sandbox: results\<close>








lemma length_indexed_runs: "length (indexed_runs s world code language i tcs) = length tcs"
  by (simp add: indexed_runs_def)


lemma strip_7: "strip ''7\<newline>'' = ''7''"
  by (simp add: strip_def is_py_space_def)












section \<open>Broadcast hub: results\<close>

lemma send_loop_eq:
  "send_loop send_raises message xs (sent, dead) =
     (sent @ map (\<lambda>w. (w, message)) (filter (\<lambda>w. \<not> send_raises w) xs),
      dead @ filter send_raises xs)"
  by (induction xs arbitrary: sent dead) simp_all

lemma list_of_fold_remove:
  "list_of_dlist (fold Dlist.remove ds d) = filter (\<lambda>x. x \<notin> set ds) (list_of_dlist d)"
proof (induction ds arbitrary: d)
  case Nil
  show ?case by simp
next
  case (Cons a ds)
  have "remove1 a (list_of_dlist d) = filter (\<lambda>x. x \<noteq> a) (list_of_dlist d)"
    by (simp add: distinct_remove1_removeAll removeAll_filter_not_eq) metis
  then show ?case
    by (simp add: Cons.IH conj_commute)
qed

lemma prune_dead:
  "fold Dlist.remove (filter send_raises (list_of_dlist members)) members =
     Dlist.filter (\<lambda>w. \<not> send_raises w) members"
proof -
  have "list_of_dlist (fold Dlist.remove (filter send_raises (list_of_dlist members)) members) =
        list_of_dlist (Dlist.filter (\<lambda>w. \<not> send_raises w) members)"
    unfolding list_of_fold_remove
    by (auto intro: filter_cong)
  then show ?thesis by (simp add: dlist_eq_iff)
qed

lemma send_to_channel_Some:
  "channels m channel = Some members \<Longrightarrow>
     send_to_channel send_raises channel message m =
       (m \<lparr> channels := (channels m)(channel \<mapsto> Dlist.filter (\<lambda>w. \<not> send_raises w) members) \<rparr>,
        map (\<lambda>w. (w, message)) (filter (\<lambda>w. \<not> send_raises w) (list_of_dlist members)))"
  by (simp add: send_to_channel_def send_loop_eq prune_dead)

lemma count_list_distinct:
  "distinct xs \<Longrightarrow> count_list xs x = (if x \<in> set xs then 1 else 0)"
  by (induction xs) auto

lemma count_deliveries:
  "count_list (map fst (map (\<lambda>w. (w, message)) (filter P (list_of_dlist members)))) w =
     (if w \<in> set (list_of_dlist members) \<and> P w then 1 else 0)"
proof -
  have "map fst (map (\<lambda>w. (w, message)) (filter P (list_of_dlist members))) =
        filter P (list_of_dlist members)"
    by (simp add: comp_def)
  moreover have "distinct (filter P (list_of_dlist members))"
    by simp
  ultimately show ?thesis
    by (simp add: count_list_distinct)
qed

lemma count_pairs:
  "count_list (map (\<lambda>w. (w, message)) xs) (w, message) = count_list xs w"
  by (induction xs) auto

lemma insert_insert: "Dlist.insert w (Dlist.insert w d) = Dlist.insert w d"
  by (simp add: dlist_eq_iff)

text \<open>
  C8. A broadcast on a channel delivers the message once to every member whose
  \<open>send_json\<close> does not raise, in the order the loop meets them; the members whose delivery
  raised are exactly those removed from the channel; the other channels and the user
  map are untouched. \<open>send_to_channel\<close> has no failing outcome: the exception of a
  dead member is caught, and the members after it are still served. On a channel
  nobody has joined nothing is sent and nothing changes.
\<close>

theorem broadcast_delivers_and_prunes:
  "(channels m channel = None \<longrightarrow> send_to_channel send_raises channel message m = (m, [])) \<and>
   (channels m channel = Some members \<longrightarrow>
      snd (send_to_channel send_raises channel message m) =
        map (\<lambda>w. (w, message)) (filter (\<lambda>w. \<not> send_raises w) (list_of_dlist members)) \<and>
      (w \<in> set (list_of_dlist members) \<and> \<not> send_raises w \<longrightarrow>
         count_list (snd (send_to_channel send_raises channel message m)) (w, message) = 1) \<and>
      (send_raises w \<longrightarrow>
         w \<notin> fst ` set (snd (send_to_channel send_raises channel message m))) \<and>
      channels (fst (send_to_channel send_raises channel message m)) channel =
        Some (Dlist.filter (\<lambda>w. \<not> send_raises w) members) \<and>
      set (list_of_dlist (Dlist.filter (\<lambda>w. \<not> send_raises w) members)) =
        {w \<in> set (list_of_dlist members). \<not> send_raises w} \<and>
      (c \<noteq> channel \<longrightarrow>
         channels (fst (send_to_channel send_raises channel message m)) c = channels m c) \<and>
      user_map (fst (send_to_channel send_raises channel message m)) = user_map m)"
proof -
  have absent: "send_to_channel send_raises channel message m = (m, [])"
    if "channels m channel = None"
    using that by (simp add: send_to_channel_def)
  have present:
      "snd (send_to_channel send_raises channel message m) =
        map (\<lambda>w. (w, message)) (filter (\<lambda>w. \<not> send_raises w) (list_of_dlist members))"
      "w \<in> set (list_of_dlist members) \<and> \<not> send_raises w \<longrightarrow>
         count_list (snd (send_to_channel send_raises channel message m)) (w, message) = 1"
      "send_raises w \<longrightarrow>
         w \<notin> fst ` set (snd (send_to_channel send_raises channel message m))"
      "channels (fst (send_to_channel send_raises channel message m)) channel =
        Some (Dlist.filter (\<lambda>w. \<not> send_raises w) members)"
      "set (list_of_dlist (Dlist.filter (\<lambda>w. \<not> send_raises w) members)) =
        {w \<in> set (list_of_dlist members). \<not> send_raises w}"
      "c \<noteq> channel \<longrightarrow>
         channels (fst (send_to_channel send_raises channel message m)) c = channels m c"
      "user_map (fst (send_to_channel send_raises channel message m)) = user_map m"
    if h: "channels m channel = Some members"
  proof -
    note eq = send_to_channel_Some [OF h, of send_raises message]
    show "snd (send_to_channel send_raises channel message m) =
        map (\<lambda>w. (w, message)) (filter (\<lambda>w. \<not> send_raises w) (list_of_dlist members))"
      by (simp add: eq)
    show "w \<in> set (list_of_dlist members) \<and> \<not> send_raises w \<longrightarrow>
         count_list (snd (send_to_channel send_raises channel message m)) (w, message) = 1"
      by (simp add: eq count_pairs count_list_distinct)
    show "send_raises w \<longrightarrow>
         w \<notin> fst ` set (snd (send_to_channel send_raises channel message m))"
      by (auto simp: eq)
    show "channels (fst (send_to_channel send_raises channel message m)) channel =
        Some (Dlist.filter (\<lambda>w. \<not> send_raises w) members)"
      by (simp add: eq)
    show "set (list_of_dlist (Dlist.filter (\<lambda>w. \<not> send_raises w) members)) =
        {w \<in> set (list_of_dlist members). \<not> send_raises w}"
      by auto
    show "c \<noteq> channel \<longrightarrow>
         channels (fst (send_to_channel send_raises channel message m)) c = channels m c"
      by (simp add: eq)
    show "user_map (fst (send_to_channel send_raises channel message m)) = user_map m"
      by (simp add: eq)
  qed
  show ?thesis
    using absent present by blast
qed

text \<open>One live and one dead observer: the live one receives the alert, the dead one
  is dropped, and a channel nobody has joined stays as it is.\<close>

theorem broadcast_delivers_and_prunes_witness:
  "snd (send_to_channel (\<lambda>w. w = 2) ''teacher_feed:e1'' ''alert'' two_observers) = [(1, ''alert'')] \<and>
   channels (fst (send_to_channel (\<lambda>w. w = 2) ''teacher_feed:e1'' ''alert'' two_observers))
     ''teacher_feed:e1'' = Some (Dlist.insert 1 Dlist.empty) \<and>
   count_list (snd (send_to_channel (\<lambda>w. w = 2) ''teacher_feed:e1'' ''alert'' two_observers))
     (1, ''alert'') = 1 \<and>
   2 \<notin> fst ` set (snd (send_to_channel (\<lambda>w. w = 2) ''teacher_feed:e1'' ''alert'' two_observers)) \<and>
   channels (fst (send_to_channel (\<lambda>w. w = 2) ''teacher_feed:e1'' ''alert'' two_observers))
     ''admin:global'' = None \<and>
   send_to_channel (\<lambda>w. w = 2) ''admin:global'' ''alert'' two_observers = (two_observers, [])"
proof -
  have ch: "channels two_observers ''teacher_feed:e1'' =
      Some (Dlist.insert 1 (Dlist.insert 2 Dlist.empty))"
    by (simp add: two_observers_def)
  have no_admin: "channels two_observers ''admin:global'' = None"
    by (simp add: two_observers_def)
  have pruned: "Dlist.filter (\<lambda>w. \<not> w = 2) (Dlist.insert 1 (Dlist.insert 2 Dlist.empty)) =
      Dlist.insert (1::nat) Dlist.empty"
    by (simp add: dlist_eq_iff)
  have live: "snd (send_to_channel (\<lambda>w. w = 2) ''teacher_feed:e1'' ''alert'' two_observers) = [(1, ''alert'')] \<and>
   channels (fst (send_to_channel (\<lambda>w. w = 2) ''teacher_feed:e1'' ''alert'' two_observers))
     ''teacher_feed:e1'' = Some (Dlist.insert 1 Dlist.empty) \<and>
   count_list (snd (send_to_channel (\<lambda>w. w = 2) ''teacher_feed:e1'' ''alert'' two_observers))
     (1, ''alert'') = 1 \<and>
   channels (fst (send_to_channel (\<lambda>w. w = 2) ''teacher_feed:e1'' ''alert'' two_observers))
     ''admin:global'' = None"
    using broadcast_delivers_and_prunes [where m = two_observers
        and channel = "''teacher_feed:e1''" and send_raises = "\<lambda>w. w = 2"
        and message = "''alert''" and w = 1 and c = "''admin:global''"
        and members = "Dlist.insert 1 (Dlist.insert 2 Dlist.empty)"] ch pruned no_admin
    by simp
  have dead: "2 \<notin> fst ` set (snd (send_to_channel (\<lambda>w. w = 2) ''teacher_feed:e1'' ''alert'' two_observers))"
    using broadcast_delivers_and_prunes [where m = two_observers
        and channel = "''teacher_feed:e1''" and send_raises = "\<lambda>w. w = 2"
        and message = "''alert''" and w = 2
        and members = "Dlist.insert 1 (Dlist.insert 2 Dlist.empty)"] ch
    by simp
  have nobody: "send_to_channel (\<lambda>w. w = 2) ''admin:global'' ''alert'' two_observers = (two_observers, [])"
    using broadcast_delivers_and_prunes [where m = two_observers
        and channel = "''admin:global''" and send_raises = "\<lambda>w. w = 2"
        and message = "''alert''"] no_admin
    by simp
  show ?thesis using live dead nobody by blast
qed

text \<open>
  C9. After an observer has joined a channel it is a member exactly once; joining
  again, whether or not \<open>accept\<close> returns the second time and whatever user info is
  passed, leaves the channel memberships as they were; and a broadcast on the channel
  delivers to that observer exactly once (not at all when its transport is closed),
  after one join as after two.
\<close>

theorem connect_is_idempotent:
  "connect True websocket channel info m = Inr m_once \<longrightarrow>
     (\<exists>members. channels m_once channel = Some members \<and>
        count_list (list_of_dlist members) websocket = 1) \<and>
     count_list (map fst (snd (send_to_channel send_raises channel message m_once))) websocket =
       (if send_raises websocket then 0 else 1) \<and>
     (connect accept_again websocket channel info_again m_once = Inr m_twice \<longrightarrow>
        channels m_twice = channels m_once \<and>
        count_list (map fst (snd (send_to_channel send_raises channel message m_twice))) websocket =
          (if send_raises websocket then 0 else 1))"
proof
  assume h: "connect True websocket channel info m = Inr m_once"
  define members0 where
    "members0 = (case channels m channel of None \<Rightarrow> Dlist.empty | Some ms \<Rightarrow> ms)"
  have m_eq: "m_once = m \<lparr> channels := (channels m)(channel \<mapsto> Dlist.insert websocket members0),
                     user_map := (user_map m)(websocket \<mapsto> info) \<rparr>"
    using h by (simp add: connect_def members0_def Let_def)
  have ch_once: "channels m_once channel = Some (Dlist.insert websocket members0)"
    by (simp add: m_eq)
  have once: "count_list (list_of_dlist (Dlist.insert websocket members0)) websocket = 1"
    by (simp add: count_list_distinct)
  have deliver: "count_list (map fst (snd (send_to_channel send_raises channel message m'))) websocket =
       (if send_raises websocket then 0 else 1)"
    if "channels m' channel = Some (Dlist.insert websocket members0)" for m'
    unfolding send_to_channel_Some [OF that] snd_conv count_deliveries by simp
  have second: "channels m_twice = channels m_once"
    if "connect accept_again websocket channel info_again m_once = Inr m_twice"
  proof -
    from that have "m_twice = m_once \<lparr> channels := (channels m_once)(channel \<mapsto>
          Dlist.insert websocket (Dlist.insert websocket members0)),
        user_map := (user_map m_once)(websocket \<mapsto> info_again) \<rparr>"
      by (simp add: connect_def ch_once Let_def split: if_splits)
    then show ?thesis
      by (simp add: insert_insert m_eq)
  qed
  show "(\<exists>members. channels m_once channel = Some members \<and>
        count_list (list_of_dlist members) websocket = 1) \<and>
     count_list (map fst (snd (send_to_channel send_raises channel message m_once))) websocket =
       (if send_raises websocket then 0 else 1) \<and>
     (connect accept_again websocket channel info_again m_once = Inr m_twice \<longrightarrow>
        channels m_twice = channels m_once \<and>
        count_list (map fst (snd (send_to_channel send_raises channel message m_twice))) websocket =
          (if send_raises websocket then 0 else 1))"
    using ch_once once deliver [of m_once] deliver [of m_twice] second by auto
qed

text \<open>A student joins \<open>exam:a1\<close> twice and receives one ping.\<close>

theorem connect_is_idempotent_witness:
  "connect True 7 ''exam:a1'' student_info new_manager = Inr joined_once \<and>
   connect True 7 ''exam:a1'' student_info joined_once = Inr joined_once \<and>
   count_list (map fst (snd (send_to_channel (\<lambda>w. False) ''exam:a1'' ''ping'' joined_once))) 7 = 1"
proof -
  have first: "connect True 7 ''exam:a1'' student_info new_manager = Inr joined_once"
    by (simp add: connect_def new_manager_def joined_once_def)
  have again: "connect True 7 ''exam:a1'' student_info joined_once = Inr joined_once"
    by (simp add: connect_def joined_once_def insert_insert)
  show ?thesis
    using connect_is_idempotent [where websocket = 7 and channel = "''exam:a1''"
        and info = student_info and m = new_manager and m_once = joined_once
        and accept_again = True and info_again = student_info and m_twice = joined_once
        and send_raises = "\<lambda>w. False" and message = "''ping''"] first again
    by simp
qed


section \<open>Monitoring: results\<close>

lemma penalty_loop_raises: "penalty_loop (v # vs) ts = Inl TypeError"
  by (simp add: apply_violation_penalty_def)

lemma py_round_0: "py_round 0 n = 0"
  by (simp add: py_round_def)

text \<open>
  C4 does not hold of the code. The heartbeat loop calls
  \<open>apply_violation_penalty(v["type"], attempt.trust_score)\<close>, which returns its first
  argument, the violation's type, a string; subtracting it from the trust score
  raises \<open>TypeError\<close>. So a heartbeat on the user's own attempt with the tab hidden,
  fullscreen left and the battery at 10 percent and not charging ends in that
  exception, no penalty is applied, and so does each of the three violations alone.
\<close>

theorem heartbeat_penalty_raises:
  "fst (receive_heartbeat 0 ''u1'' troubled_beat exam_state) = Inl TypeError \<and>
   attempts (snd (receive_heartbeat 0 ''u1'' troubled_beat exam_state)) = attempts exam_state \<and>
   fst (receive_heartbeat 0 ''u1'' (troubled_beat \<lparr> fullscreen := True, battery_level := None \<rparr>)
          exam_state) = Inl TypeError \<and>
   fst (receive_heartbeat 0 ''u1'' (troubled_beat \<lparr> tab_visible := True, battery_level := None \<rparr>)
          exam_state) = Inl TypeError \<and>
   fst (receive_heartbeat 0 ''u1'' (troubled_beat \<lparr> tab_visible := True, fullscreen := True \<rparr>)
          exam_state) = Inl TypeError"
  by (simp add: receive_heartbeat_def troubled_beat_def exam_state_def Let_def
      penalty_loop_raises HEARTBEAT_TOLERANCE_def del: penalty_loop.simps)

text \<open>
  C6 does not hold of the code, by the defect of the penalty loop shown above. A
  first heartbeat on the user's own attempt is answered; the next one, 11 seconds
  later, finds the gap,
  updates the last-seen time to its own, and then raises \<open>TypeError\<close> in the penalty
  loop: no violation is returned, and the event added for the gap is rolled back.
\<close>

theorem heartbeat_gap_raises:
  "fst (receive_heartbeat 0 ''u1'' quiet_beat exam_state) =
     Inr \<lparr> hb_status = ''ok'', server_time = 0, gap_seconds = 0, resp_violations = [],
           resp_paused = False \<rparr> \<and>
   heartbeats (snd (receive_heartbeat 0 ''u1'' quiet_beat exam_state)) ''a1'' = Some 0 \<and>
   fst (receive_heartbeat 11000000 ''u1'' quiet_beat
          (snd (receive_heartbeat 0 ''u1'' quiet_beat exam_state))) = Inl TypeError \<and>
   heartbeats (snd (receive_heartbeat 11000000 ''u1'' quiet_beat
          (snd (receive_heartbeat 0 ''u1'' quiet_beat exam_state)))) ''a1'' = Some 11000000 \<and>
   events (snd (receive_heartbeat 11000000 ''u1'' quiet_beat
          (snd (receive_heartbeat 0 ''u1'' quiet_beat exam_state)))) = []"
  by (simp add: receive_heartbeat_def quiet_beat_def exam_state_def Let_def
      penalty_loop_raises HEARTBEAT_TOLERANCE_def del: penalty_loop.simps)

text \<open>
  C5 does not hold of the audio endpoint: for an event type its table does not
  know, the default is a penalty of 0, so the event is stored and answered with risk
  \<open>low\<close> and the trust score stays at 100. The same request costs 1 point at the
  behaviour endpoint and 0.7 at the camera endpoint.
\<close>

theorem unknown_audio_event_costs_nothing:
  "fst (receive_audio_event ''u1'' unknown_signal exam_state) =
     \<lparr> processed = True, sr_risk_level = ''low'', trust_adjustment = 0, new_trust_score = None \<rparr> \<and>
   attempts (snd (receive_audio_event ''u1'' unknown_signal exam_state)) = attempts exam_state \<and>
   ev_event_type (last (events (snd (receive_audio_event ''u1'' unknown_signal exam_state)))) = ''audio_cough'' \<and>
   trust_adjustment (fst (receive_behavior_event ''u1'' unknown_signal exam_state)) = - 1 \<and>
   new_trust_score (fst (receive_behavior_event ''u1'' unknown_signal exam_state)) = Some 99 \<and>
   trust_adjustment (fst (receive_camera_event ''u1'' unknown_signal exam_state)) = - (7 / 10)"
proof -
  have r1: "py_round (- 1) 2 = - 1" by code_simp
  have r2: "py_round (- (7 / 10)) 2 = - (7 / 10)" by code_simp
  show ?thesis
    by (simp add: receive_audio_event_def receive_behavior_event_def receive_camera_event_def
      unknown_signal_def exam_state_def Let_def dict_get_def audio_risk_map_def
      behavior_risk_map_def camera_risk_map_def log_event_def py_round_0 r1 r2)
qed

lemma gap_exceeds_tolerance:
  "HEARTBEAT_TOLERANCE * 1000000 < rat_of_int now - rat_of_int lb \<longleftrightarrow> 10000000 < now - lb"
proof -
  have "(10 * 1000000 :: rat) < rat_of_int now - rat_of_int lb \<longleftrightarrow>
        rat_of_int 10000000 < rat_of_int (now - lb)"
    by simp
  also have "\<dots> \<longleftrightarrow> 10000000 < now - lb"
    by (simp only: of_int_less_iff)
  finally show ?thesis by (simp add: HEARTBEAT_TOLERANCE_def)
qed

text \<open>What \<open>receive_heartbeat\<close> does on every input: the last-seen time is always
  written; on the user's own attempt it raises exactly when a violation was found;
  and where no attempt is found, the gap violation is returned exactly when a
  previous heartbeat lies more than 10 seconds back.\<close>

lemma heartbeat_updates_last_seen:
  "heartbeats (snd (receive_heartbeat now current_user data st)) (hb_attempt_id data) = Some now"
  by (simp add: receive_heartbeat_def Let_def penalty_loop_raises
      split: option.splits sum.splits del: penalty_loop.simps)

lemma heartbeat_on_own_attempt:
  assumes "attempts st (hb_attempt_id data) = Some a" and "user_id a = current_user"
  shows "fst (receive_heartbeat now current_user data st) = Inl TypeError \<longleftrightarrow>
           (\<exists>lb. heartbeats st (hb_attempt_id data) = Some lb \<and> 10000000 < now - lb) \<or>
           \<not> tab_visible data \<or> \<not> fullscreen data \<or>
           (\<exists>level. battery_level data = Some level \<and> level < 15 / 100 \<and>
              battery_charging data \<noteq> Some True)"
proof -
  show ?thesis
    using assms
    by (cases "heartbeats st (hb_attempt_id data)"; cases "battery_level data")
       (auto simp: receive_heartbeat_def Let_def gap_exceeds_tolerance penalty_loop_raises
          simp del: penalty_loop.simps)
qed

lemma heartbeat_gap_detection:
  assumes "attempts st (hb_attempt_id data) = None"
  shows "\<exists>r. fst (receive_heartbeat now current_user data st) = Inr r \<and>
           ((\<exists>g. HeartbeatGap g \<in> set (resp_violations r)) \<longleftrightarrow>
              (\<exists>lb. heartbeats st (hb_attempt_id data) = Some lb \<and> 10000000 < now - lb))"
proof -
  show ?thesis
    using assms
    by (cases "heartbeats st (hb_attempt_id data)"; cases "battery_level data")
       (auto simp: receive_heartbeat_def Let_def gap_exceeds_tolerance)
qed


section \<open>Event signatures: results\<close>

lemma verify_event_sign_event:
  "verify_event digest dumps key event_data (sign_event digest dumps key event_data)"
  by (simp add: verify_event_def)

lemma verify_event_other_payload:
  "verify_event digest dumps key other (sign_event digest dumps key event_data) \<longleftrightarrow>
     digest key (dumps other) = digest key (dumps event_data)"
  by (simp add: verify_event_def sign_event_def)

end
